theory Spec2Isabelle
  imports Main "HOL-Library.Word"
begin

unbundle bit_operations_syntax

section \<open>Data model of package crypt\<close>

type_synonym byte = "8 word"
type_synonym bytes = "byte list"

text \<open>Go's \<open>int\<close> on a 64-bit platform: addition wraps.\<close>
type_synonym goint = "64 word"

text \<open>
  The error values the package can return. The package builds its own errors with
  \<open>errors.New\<close>; the others come from the libraries it calls.
\<close>
datatype error =
    KeySizeError            \<comment> \<open>aes.NewCipher rejects the key\<close>
  | ErrNewGCM               \<comment> \<open>cipher.NewGCM rejects the block\<close>
  | ErrOpen                 \<comment> \<open>cipher: message authentication failed\<close>
  | ErrReadBufTooSmall      \<comment> \<open>"buffer can't be smaller then gcm.NonceSize"\<close>
  | ErrCiphertextTooSmall   \<comment> \<open>"ciphertext can't be smaller then gcm.NonceSize"\<close>
  | ErrEOF                  \<comment> \<open>io.EOF of the underlying reader\<close>
  | ErrIO nat               \<comment> \<open>any other error of the underlying reader or writer\<close>

text \<open>Run-time panics of the Go code.\<close>
datatype panic =
    NilDereference          \<comment> \<open>method call on a nil interface, slicing a nil array pointer\<close>
  | SliceBounds             \<comment> \<open>slice bounds out of range\<close>
  | RandFailed              \<comment> \<open>newNonce: \<open>panic(err)\<close>\<close>
  | RandShort               \<comment> \<open>newNonce: "cryptograpic source of secure random failed"\<close>
  | MakeLenOutOfRange       \<comment> \<open>\<open>make([]byte, n)\<close>: "makeslice: len out of range"\<close>

datatype 'a outcome = Panic panic | Return 'a

text \<open>
  \<open>cipher.AEAD\<close> is an interface of the Go standard library; the package only calls its
  four methods, so it is a parameter here. A \<open>nil\<close> byte slice is the empty list.
  \<open>Open\<close> returns Go's pair (plaintext, err).
\<close>
record aead =
  NonceSize :: nat
  Overhead :: nat
  Seal :: "bytes \<Rightarrow> bytes \<Rightarrow> bytes \<Rightarrow> bytes \<Rightarrow> bytes"
  Open :: "bytes \<Rightarrow> bytes \<Rightarrow> bytes \<Rightarrow> bytes \<Rightarrow> bytes \<times> error option"

text \<open>
  The two library constructors \<open>newGCM\<close> calls: \<open>aes.NewCipher\<close> and
  \<open>cipher.NewGCM\<close>, each returning an error or a value.
\<close>
record 'blk cryptolib =
  aes_NewCipher :: "bytes \<Rightarrow> error + 'blk"
  cipher_NewGCM :: "'blk \<Rightarrow> error + aead"

text \<open>
  \<open>io.ReadFull(rand.Reader, nonce)\<close>: given the state of the random source and the
  number of bytes asked for, the bytes read (their number is Go's \<open>n\<close>), the error, and
  the next state.
\<close>
type_synonym 'r rand_reader = "'r \<Rightarrow> nat \<Rightarrow> (bytes \<times> error option) \<times> 'r"

text \<open>
  An \<open>io.Reader\<close>: given its state and the length of the buffer passed to \<open>Read\<close>, the
  bytes it stored at the front of the buffer (their number is Go's \<open>n\<close>), the error, and
  the next state. An \<open>io.Writer\<close>: given its state and the bytes passed to \<open>Write\<close>, the
  count it reports, the error, and the next state.
\<close>
type_synonym 's io_reader = "'s \<Rightarrow> nat \<Rightarrow> (bytes \<times> error option) \<times> 's"
type_synonym 'k io_writer = "'k \<Rightarrow> bytes \<Rightarrow> (goint \<times> error option) \<times> 'k"

text \<open>
  The structs \<open>Reader\<close> and \<open>Writer\<close>. The interface field \<open>gcm\<close> may be nil
  (\<open>None\<close>). The state of the underlying reader or writer is passed beside the struct.
\<close>
record 's reader =
  r_r :: "'s io_reader"
  r_gcm :: "aead option"
  r_buf :: bytes

record 'k writer =
  w_w :: "'k io_writer"
  w_gcm :: "aead option"
  w_buf :: bytes

section \<open>newGCM and newNonce\<close>

text \<open>
  \<open>key\<close> is a \<open>*[32]byte\<close>: \<open>None\<close> is the nil pointer, on which \<open>key[:]\<close> panics.
  The result is Go's pair (gcm, err), with gcm nil when an error is returned.
\<close>
definition newGCM :: "'blk cryptolib \<Rightarrow> bytes option \<Rightarrow> (aead option \<times> error option) outcome" where
  "newGCM lib key =
     (case key of
        None \<Rightarrow> Panic NilDereference
      | Some k \<Rightarrow>
          (case aes_NewCipher lib k of
             Inl err \<Rightarrow> Return (None, Some err)
           | Inr block \<Rightarrow>
               (case cipher_NewGCM lib block of
                  Inl err \<Rightarrow> Return (None, Some err)
                | Inr gcm \<Rightarrow> Return (Some gcm, None))))"

definition newNonce :: "'r rand_reader \<Rightarrow> 'r \<Rightarrow> nat \<Rightarrow> bytes outcome \<times> 'r" where
  "newNonce rnd r sz =
     (case rnd r sz of
        ((nonce, err), r') \<Rightarrow>
          if err \<noteq> None then (Panic RandFailed, r')
          else if length nonce \<noteq> sz then (Panic RandShort, r')
          else (Return nonce, r'))"

section \<open>Encrypt and Decrypt\<close>

definition Encrypt ::
  "'blk cryptolib \<Rightarrow> 'r rand_reader \<Rightarrow> 'r \<Rightarrow> bytes \<Rightarrow> bytes option
     \<Rightarrow> (bytes \<times> error option) outcome \<times> 'r" where
  "Encrypt lib rnd r plaintext key =
     (case newGCM lib key of
        Panic x \<Rightarrow> (Panic x, r)
      | Return (gcm, err) \<Rightarrow>
          (case err of
             Some e \<Rightarrow> (Return ([], Some e), r)
           | None \<Rightarrow>
               (case gcm of
                  None \<Rightarrow> (Panic NilDereference, r)
                | Some g \<Rightarrow>
                    (case newNonce rnd r (NonceSize g) of
                       (Panic x, r') \<Rightarrow> (Panic x, r')
                     | (Return nonce, r') \<Rightarrow>
                         (Return (Seal g nonce nonce plaintext [], None), r')))))"

text \<open>\<open>Decrypt\<close> never looks at the error \<open>newGCM\<close> returned.\<close>
definition Decrypt ::
  "'blk cryptolib \<Rightarrow> bytes \<Rightarrow> bytes option \<Rightarrow> (bytes \<times> error option) outcome" where
  "Decrypt lib ciphertext key =
     (case newGCM lib key of
        Panic x \<Rightarrow> Panic x
      | Return (gcm, err) \<Rightarrow>
          (case gcm of
             None \<Rightarrow> Panic NilDereference
           | Some g \<Rightarrow>
               if length ciphertext < NonceSize g
               then Return ([], Some ErrCiphertextTooSmall)
               else Return (Open g []
                              (take (NonceSize g) ciphertext)
                              (drop (NonceSize g) ciphertext)
                              [])))"

section \<open>Writer.Write\<close>

text \<open>Go's builtin \<open>copy(dst, src)\<close>: the number of bytes copied and the new dst.\<close>
definition copy :: "bytes \<Rightarrow> bytes \<Rightarrow> nat \<times> bytes" where
  "copy dst src = (let n = min (length dst) (length src) in (n, take n src @ drop n dst))"

text \<open>
  What the loop of \<open>Write\<close> changes: the named result \<open>total\<close> (\<open>st_total\<close>), the contents of the
  array behind \<open>w.buf\<close> (shared by every copy of the struct), the underlying writer and
  the random source. The slice \<open>p\<close> is never assigned to.
\<close>
record ('k, 'r) wstate =
  st_total :: goint
  st_buf :: bytes
  st_sink :: 'k
  st_rng :: 'r

text \<open>
  One pass through the loop body: \<open>Inl\<close> is the state at the end of the body, \<open>Inr\<close> a
  \<open>return\<close> or a panic inside it. The error assigned in the \<open>else if\<close> branch goes to
  the \<open>err\<close> declared inside the block and is never read, so that branch changes nothing.
\<close>
definition Write_body ::
  "'k writer \<Rightarrow> 'r rand_reader \<Rightarrow> bytes \<Rightarrow> ('k, 'r) wstate
     \<Rightarrow> ('k, 'r) wstate + ((goint \<times> error option) outcome \<times> ('k, 'r) wstate)" where
  "Write_body w rnd p st =
     (case copy (st_buf st) p of
        (n, buf') \<Rightarrow>
          let st1 = st\<lparr>st_buf := buf', st_total := st_total st + of_nat n\<rparr> in
          if n = length buf' then
            (case w_gcm w of
               None \<Rightarrow> Inr (Panic NilDereference, st1)
             | Some g \<Rightarrow>
                 (case newNonce rnd (st_rng st1) (NonceSize g) of
                    (Panic x, r') \<Rightarrow> Inr (Panic x, st1\<lparr>st_rng := r'\<rparr>)
                  | (Return nonce, r') \<Rightarrow>
                      let ciphertext = Seal g nonce nonce p [] in
                      (case w_w w (st_sink st1) buf' of
                         ((nw, err), k') \<Rightarrow>
                           let st2 = st1\<lparr>st_rng := r', st_sink := k'\<rparr> in
                           if err \<noteq> None then Inr (Return (st_total st2 + nw, err), st2)
                           else if nw \<noteq> of_nat (length ciphertext)
                           then Inl (st2\<lparr>st_total := st_total st2 + nw\<rparr>)
                           else Inl (st2\<lparr>st_total := st_total st2 + nw\<rparr>))))
          else Inl st1)"

text \<open>
  The loop \<open>for len(p) != 0\<close> may run forever. \<open>Write_run n\<close> runs at most \<open>n\<close> passes:
  \<open>Inl\<close> is the state of a loop still running after them, \<open>Inr\<close> the result of a call
  that returned or panicked.
\<close>
fun Write_run ::
  "nat \<Rightarrow> 'k writer \<Rightarrow> 'r rand_reader \<Rightarrow> bytes \<Rightarrow> ('k, 'r) wstate
     \<Rightarrow> ('k, 'r) wstate + ((goint \<times> error option) outcome \<times> ('k, 'r) wstate)" where
  "Write_run 0 w rnd p st =
     (if length p \<noteq> 0 then Inl st else Inr (Return (st_total st, None), st))"
| "Write_run (Suc n) w rnd p st =
     (if length p \<noteq> 0 then
        (case Write_body w rnd p st of
           Inl st' \<Rightarrow> Write_run n w rnd p st'
         | Inr res \<Rightarrow> Inr res)
      else Inr (Return (st_total st, None), st))"

text \<open>
  \<open>Write\<close> with fuel: \<open>None\<close> when the call has not returned within \<open>fuel\<close> passes of
  the loop. A call returns when some fuel gives \<open>Some\<close>.
\<close>
definition Write ::
  "nat \<Rightarrow> 'k writer \<Rightarrow> 'r rand_reader \<Rightarrow> bytes \<Rightarrow> 'k \<Rightarrow> 'r
     \<Rightarrow> ((goint \<times> error option) outcome \<times> ('k, 'r) wstate) option" where
  "Write fuel w rnd p k r =
     (case Write_run fuel w rnd p \<lparr>st_total = 0, st_buf = w_buf w, st_sink = k, st_rng = r\<rparr> of
        Inl st \<Rightarrow> None
      | Inr res \<Rightarrow> Some res)"

text \<open>The state a run stands in, whether the call is still looping or is over.\<close>
definition run_state ::
  "('k, 'r) wstate + ((goint \<times> error option) outcome \<times> ('k, 'r) wstate) \<Rightarrow> ('k, 'r) wstate" where
  "run_state x = (case x of Inl st \<Rightarrow> st | Inr (res, st) \<Rightarrow> st)"

section \<open>Reader.Read\<close>

text \<open>
  \<open>Read\<close> returns Go's pair (n, err), the contents of \<open>p\<close> after the call and the next
  state of the underlying reader. \<open>buf\<close> has \<open>len(p) + Overhead\<close> bytes, so \<open>buf[:n]\<close>
  panics when the underlying reader reports more; \<open>ciphertext[:NonceSize]\<close> stays within
  the capacity of \<open>buf\<close>, and \<open>ciphertext[NonceSize:]\<close> panics when \<open>n\<close> is smaller than
  the nonce size.
\<close>
definition Read ::
  "'s reader \<Rightarrow> 's \<Rightarrow> bytes \<Rightarrow> (nat \<times> error option) outcome \<times> bytes \<times> 's" where
  "Read rd s p =
     (case r_gcm rd of
        None \<Rightarrow> (Panic NilDereference, p, s)
      | Some g \<Rightarrow>
          if length p < NonceSize g then (Return (0, Some ErrReadBufTooSmall), p, s)
          else
            (case r_r rd s (length p + Overhead g) of
               ((data, err), s') \<Rightarrow>
                 if err \<noteq> None then (Return (0, err), p, s')
                 else if length p + Overhead g < length data then (Panic SliceBounds, p, s')
                 else if length data < NonceSize g then (Panic SliceBounds, p, s')
                 else
                   (case Open g [] (take (NonceSize g) data) (drop (NonceSize g) data) [] of
                      (b, err) \<Rightarrow>
                        if err \<noteq> None then (Return (0, err), p, s')
                        else (case copy p b of (n, p') \<Rightarrow> (Return (n, None), p', s')))))"

section \<open>NewReader and NewWriter\<close>

text \<open>
  The struct returned beside an error is the zero value \<open>Reader{}\<close> or \<open>Writer{}\<close>,
  whose interface fields are nil: \<open>None\<close> here. \<open>bufSize\<close> is a Go \<open>int\<close>, read as a
  signed 64-bit value. \<open>make([]byte, bufSize)\<close> panics when the length is negative or
  above the largest length the runtime accepts for a byte slice, which depends on the
  platform and is the parameter \<open>maxAlloc\<close>.
\<close>
definition NewReader ::
  "'blk cryptolib \<Rightarrow> int \<Rightarrow> 's io_reader \<Rightarrow> bytes option \<Rightarrow> goint
     \<Rightarrow> ('s reader option \<times> error option) outcome" where
  "NewReader lib maxAlloc r key bufSize =
     (let bufSize = (if bufSize = 0 then 1 * 1024 else bufSize) in
      case newGCM lib key of
        Panic x \<Rightarrow> Panic x
      | Return (gcm, err) \<Rightarrow>
          (case err of
             Some e \<Rightarrow> Return (None, Some e)
           | None \<Rightarrow>
               if sint bufSize < 0 \<or> maxAlloc < sint bufSize then Panic MakeLenOutOfRange
               else Return (Some \<lparr>r_r = r, r_gcm = gcm,
                                  r_buf = replicate (nat (sint bufSize)) 0\<rparr>,
                            None)))"

definition NewWriter ::
  "'blk cryptolib \<Rightarrow> int \<Rightarrow> 'k io_writer \<Rightarrow> bytes option \<Rightarrow> goint
     \<Rightarrow> ('k writer option \<times> error option) outcome" where
  "NewWriter lib maxAlloc w key bufSize =
     (let bufSize = (if bufSize = 0 then 1 * 1024 else bufSize) in
      case newGCM lib key of
        Panic x \<Rightarrow> Panic x
      | Return (gcm, err) \<Rightarrow>
          (case err of
             Some e \<Rightarrow> Return (None, Some e)
           | None \<Rightarrow>
               if sint bufSize < 0 \<or> maxAlloc < sint bufSize then Panic MakeLenOutOfRange
               else Return (Some \<lparr>w_w = w, w_gcm = gcm,
                                  w_buf = replicate (nat (sint bufSize)) 0\<rparr>,
                            None)))"

section \<open>What the package assumes of the AEAD\<close>

text \<open>
  The contract of \<open>cipher.AEAD\<close> the package relies on, for nonces of the right size:
  \<open>Seal\<close> appends its output to \<open>dst\<close>, the output is \<open>Overhead\<close> bytes longer than
  the plaintext, and \<open>Open\<close> with the same nonce and additional data gives the plaintext
  back, appended to its own \<open>dst\<close>.
\<close>
definition aead_contract :: "aead \<Rightarrow> bool" where
  "aead_contract g \<longleftrightarrow>
     (\<forall>dst nonce pt ad. length nonce = NonceSize g \<longrightarrow>
        Seal g dst nonce pt ad = dst @ Seal g [] nonce pt ad) \<and>
     (\<forall>nonce pt ad. length nonce = NonceSize g \<longrightarrow>
        length (Seal g [] nonce pt ad) = length pt + Overhead g) \<and>
     (\<forall>dst nonce pt ad. length nonce = NonceSize g \<longrightarrow>
        Open g dst nonce (Seal g [] nonce pt ad) ad = (dst @ pt, None))"

text \<open>The sizes of standard GCM: a 12-byte nonce and a 16-byte tag.\<close>
definition gcm_sizes :: "aead \<Rightarrow> bool" where
  "gcm_sizes g \<longleftrightarrow> NonceSize g = 12 \<and> Overhead g = 16"

section \<open>Tampering with a byte sequence\<close>

text \<open>Bit \<open>i\<close> of a byte sequence, counted from the low bit of the first byte, inverted.\<close>
definition flip_bit_at :: "nat \<Rightarrow> bytes \<Rightarrow> bytes" where
  "flip_bit_at i xs = xs[i div 8 := (xs ! (i div 8)) XOR push_bit (i mod 8) 1]"

section \<open>A small platform for concrete runs\<close>

text \<open>
  An AEAD small enough to evaluate: the key stream is one byte, the tag is fifteen zero
  bytes and the XOR of all bytes of key, nonce, ciphertext and additional data. It has
  the sizes of GCM and meets the contract above; it is no cipher.
\<close>
definition xor_sum :: "bytes \<Rightarrow> byte" where
  "xor_sum xs = foldr (XOR) xs 0"

definition toy_tag :: "bytes \<Rightarrow> bytes \<Rightarrow> bytes \<Rightarrow> bytes \<Rightarrow> bytes" where
  "toy_tag k nonce ct ad = replicate 15 0 @ [xor_sum (k @ nonce @ ct @ ad)]"

definition toy_Seal :: "bytes \<Rightarrow> bytes \<Rightarrow> bytes \<Rightarrow> bytes \<Rightarrow> bytes \<Rightarrow> bytes" where
  "toy_Seal k dst nonce pt ad =
     (let ct = map (\<lambda>b. b XOR xor_sum (k @ nonce)) pt in dst @ ct @ toy_tag k nonce ct ad)"

definition toy_Open :: "bytes \<Rightarrow> bytes \<Rightarrow> bytes \<Rightarrow> bytes \<Rightarrow> bytes \<Rightarrow> bytes \<times> error option" where
  "toy_Open k dst nonce body ad =
     (if length body < 16 then ([], Some ErrOpen)
      else let ct = take (length body - 16) body; tag = drop (length body - 16) body in
        if tag = toy_tag k nonce ct ad
        then (dst @ map (\<lambda>b. b XOR xor_sum (k @ nonce)) ct, None)
        else ([], Some ErrOpen))"

definition toy_aead :: "bytes \<Rightarrow> aead" where
  "toy_aead k = \<lparr>NonceSize = 12, Overhead = 16, Seal = toy_Seal k, Open = toy_Open k\<rparr>"

text \<open>A library that accepts AES key sizes, and one whose \<open>cipher.NewGCM\<close> fails.\<close>
definition toy_lib :: "bytes cryptolib" where
  "toy_lib = \<lparr>aes_NewCipher = (\<lambda>k. if length k \<in> {16, 24, 32} then Inr k else Inl KeySizeError),
              cipher_NewGCM = (\<lambda>k. Inr (toy_aead k))\<rparr>"

definition rejecting_lib :: "bytes cryptolib" where
  "rejecting_lib = \<lparr>aes_NewCipher = (\<lambda>k. Inr k), cipher_NewGCM = (\<lambda>k. Inl ErrNewGCM)\<rparr>"

text \<open>A random source that never fails: call number \<open>r\<close> yields the byte \<open>r\<close> repeated.\<close>
definition counter_rand :: "nat rand_reader" where
  "counter_rand r n = ((replicate n (of_nat r), None), Suc r)"

definition key0 :: bytes where
  "key0 = [1, 2, 3, 4, 5, 6, 7, 8, 9, 10, 11, 12, 13, 14, 15, 16,
           17, 18, 19, 20, 21, 22, 23, 24, 25, 26, 27, 28, 29, 30, 31, 32]"

text \<open>
  Underlying writers: one that records every write and accepts it in full, and one that
  accepts \<open>k\<close> writes and fails from then on. Underlying readers: one that answers each
  \<open>Read\<close> with the next entry of a script, and a wrapper that logs the buffer length of
  every \<open>Read\<close> it receives.
\<close>
definition rec_sink :: "(bytes list) io_writer" where
  "rec_sink k b = ((of_nat (length b), None), k @ [b])"

definition fail_sink :: "nat io_writer" where
  "fail_sink k b =
     (if k = 0 then ((0, Some (ErrIO 0)), 0) else ((of_nat (length b), None), k - 1))"

definition script_src :: "((bytes \<times> error option) list) io_reader" where
  "script_src s n = (case s of [] \<Rightarrow> (([], Some ErrEOF), []) | x # xs \<Rightarrow> (x, xs))"

definition logged :: "'s io_reader \<Rightarrow> ('s \<times> nat list) io_reader" where
  "logged rd = (\<lambda>(s, log) n. case rd s n of (res, s') \<Rightarrow> (res, (s', log @ [n])))"

text \<open>A writer and two readers with chunk size 16, a 16-byte chunk, and its sealed frame.\<close>
definition writer16 :: "(bytes list) writer" where
  "writer16 = \<lparr>w_w = rec_sink, w_gcm = Some (toy_aead key0), w_buf = replicate 16 0\<rparr>"

definition failing_writer16 :: "nat writer" where
  "failing_writer16 = \<lparr>w_w = fail_sink, w_gcm = Some (toy_aead key0), w_buf = replicate 16 0\<rparr>"

definition reader16 :: "((bytes \<times> error option) list) reader" where
  "reader16 = \<lparr>r_r = script_src, r_gcm = Some (toy_aead key0), r_buf = replicate 16 0\<rparr>"

definition logged_reader16 :: "((bytes \<times> error option) list \<times> nat list) reader" where
  "logged_reader16 =
     \<lparr>r_r = logged script_src, r_gcm = Some (toy_aead key0), r_buf = replicate 16 0\<rparr>"

definition chunk16 :: bytes where
  "chunk16 = [65, 66, 67, 68, 69, 70, 71, 72, 73, 74, 75, 76, 77, 78, 79, 80]"

definition frame16 :: bytes where
  "frame16 = Seal (toy_aead key0) (replicate 12 0) (replicate 12 0) chunk16 []"

definition start16 :: "(bytes list, nat) wstate" where
  "start16 = \<lparr>st_total = 0, st_buf = replicate 16 0, st_sink = [], st_rng = 0\<rparr>"

section \<open>Properties of the small platform\<close>

lemma xor_twice: "(b XOR c) XOR c = (b::byte)"
  by (simp add: ac_simps)

lemma toy_aead_contract: "aead_contract (toy_aead k)"
  by (simp add: aead_contract_def toy_aead_def toy_Seal_def toy_Open_def toy_tag_def
      Let_def comp_def xor_twice)

lemma toy_aead_sizes: "gcm_sizes (toy_aead k)"
  by (simp add: gcm_sizes_def toy_aead_def)

lemma newGCM_toy: "newGCM toy_lib (Some key0) = Return (Some (toy_aead key0), None)"
  by (simp add: newGCM_def toy_lib_def key0_def)

lemma counter_rand_nonce:
  "counter_rand r (NonceSize (toy_aead k)) = ((replicate 12 (of_nat r), None), Suc r)"
  by (simp add: counter_rand_def toy_aead_def)

lemma length_nonce_toy: "length (replicate 12 b) = NonceSize (toy_aead k)"
  by (simp add: toy_aead_def)

lemma contract_Seal:
  "aead_contract g \<Longrightarrow> length nonce = NonceSize g
     \<Longrightarrow> Seal g dst nonce pt ad = dst @ Seal g [] nonce pt ad"
  unfolding aead_contract_def by blast

lemma contract_length:
  "aead_contract g \<Longrightarrow> length nonce = NonceSize g
     \<Longrightarrow> length (Seal g [] nonce pt ad) = length pt + Overhead g"
  unfolding aead_contract_def by blast

lemma contract_Open:
  "aead_contract g \<Longrightarrow> length nonce = NonceSize g
     \<Longrightarrow> Open g dst nonce (Seal g [] nonce pt ad) ad = (dst @ pt, None)"
  unfolding aead_contract_def by blast

section \<open>Encrypt and Decrypt: round trip and layout\<close>

text \<open>
  C1. Whole-buffer round trip: when \<open>newGCM\<close> accepts the key, the AEAD meets its
  contract and the random source delivers a nonce, \<open>Encrypt\<close> returns a ciphertext
  without error and \<open>Decrypt\<close> of that ciphertext under the same key returns exactly
  the plaintext, without error.
\<close>
theorem Decrypt_Encrypt_roundtrip:
  assumes gcm: "newGCM lib (Some K) = Return (Some g, None)"
    and contract: "aead_contract g"
    and rnd: "rnd r (NonceSize g) = ((nonce, None), r')"
    and len: "length nonce = NonceSize g"
  shows "\<exists>c. Encrypt lib rnd r P (Some K) = (Return (c, None), r')
           \<and> Decrypt lib c (Some K) = Return (P, None)"
proof -
  define body where "body = Seal g [] nonce P []"
  have seal: "Seal g nonce nonce P [] = nonce @ body"
    unfolding body_def by (rule contract_Seal [OF contract len])
  have opn: "Open g [] nonce body [] = (P, None)"
    using contract_Open [OF contract len, of "[]" P "[]"] by (simp add: body_def)
  have enc: "Encrypt lib rnd r P (Some K) = (Return (nonce @ body, None), r')"
    by (simp add: Encrypt_def gcm newNonce_def rnd len seal)
  have dec: "Decrypt lib (nonce @ body) (Some K) = Return (P, None)"
    by (simp add: Decrypt_def gcm len opn)
  from enc dec show ?thesis by blast
qed

theorem Decrypt_Encrypt_roundtrip_witness:
  "\<exists>c. Encrypt toy_lib counter_rand 0 [1, 2, 3] (Some key0) = (Return (c, None), Suc 0)
       \<and> Decrypt toy_lib c (Some key0) = Return ([1, 2, 3], None)"
  by (rule Decrypt_Encrypt_roundtrip
      [where rnd = counter_rand and r = 0,
        OF newGCM_toy toy_aead_contract counter_rand_nonce length_nonce_toy])

text \<open>
  C7. Size and layout of \<open>Encrypt\<close>'s output: it is the drawn 12-byte nonce, followed by
  the output of \<open>Seal\<close> for that nonce, whose first \<open>len(plaintext)\<close> bytes are the
  ciphertext and whose last 16 bytes are the tag; the length is \<open>len(plaintext) + 28\<close>.
\<close>
theorem Encrypt_layout:
  assumes gcm: "newGCM lib (Some K) = Return (Some g, None)"
    and contract: "aead_contract g"
    and sizes: "gcm_sizes g"
    and rnd: "rnd r (NonceSize g) = ((nonce, None), r')"
    and len: "length nonce = NonceSize g"
  shows "\<exists>ct tag. Encrypt lib rnd r P (Some K) = (Return (nonce @ ct @ tag, None), r')
           \<and> length nonce = 12 \<and> length ct = length P \<and> length tag = 16
           \<and> ct @ tag = Seal g [] nonce P []
           \<and> length (nonce @ ct @ tag) = length P + 28"
proof -
  define body where "body = Seal g [] nonce P []"
  define ct where "ct = take (length P) body"
  define tag where "tag = drop (length P) body"
  have seal: "Seal g nonce nonce P [] = nonce @ body"
    unfolding body_def by (rule contract_Seal [OF contract len])
  have lb: "length body = length P + 16"
    using contract_length [OF contract len, of P "[]"] sizes
    by (simp add: gcm_sizes_def body_def)
  have ln: "length nonce = 12"
    using sizes len by (simp add: gcm_sizes_def)
  have enc: "Encrypt lib rnd r P (Some K) = (Return (nonce @ ct @ tag, None), r')"
    by (simp add: Encrypt_def gcm newNonce_def rnd len seal ct_def tag_def)
  have parts: "length ct = length P" "length tag = 16" "ct @ tag = body"
    using lb by (simp_all add: ct_def tag_def)
  have "Encrypt lib rnd r P (Some K) = (Return (nonce @ ct @ tag, None), r')
          \<and> length nonce = 12 \<and> length ct = length P \<and> length tag = 16
          \<and> ct @ tag = Seal g [] nonce P []
          \<and> length (nonce @ ct @ tag) = length P + 28"
    using enc ln parts lb by (simp add: body_def)
  then show ?thesis by blast
qed

theorem Encrypt_layout_witness:
  "\<exists>ct tag. Encrypt toy_lib counter_rand 0 [1, 2, 3] (Some key0)
        = (Return (replicate 12 (of_nat 0) @ ct @ tag, None), Suc 0)
       \<and> length (replicate 12 (of_nat 0 :: byte)) = 12
       \<and> length ct = length [1, 2, 3 :: byte] \<and> length tag = 16
       \<and> ct @ tag = Seal (toy_aead key0) [] (replicate 12 (of_nat 0)) [1, 2, 3] []
       \<and> length (replicate 12 (of_nat 0 :: byte) @ ct @ tag) = length [1, 2, 3 :: byte] + 28"
  by (rule Encrypt_layout
      [where rnd = counter_rand and r = 0,
        OF newGCM_toy toy_aead_contract toy_aead_sizes counter_rand_nonce length_nonce_toy])

section \<open>Reader.Read: one request per call\<close>

text \<open>
  C10. For a Reader whose AEAD has overhead 16 and a destination at least as long as the
  nonce, \<open>Read\<close> calls the underlying reader exactly once, with a buffer of
  \<open>len(p) + 16\<close> bytes: the log of requested lengths is that single entry. The buffer
  the Reader was built with has no effect: replacing \<open>r_buf\<close> changes nothing, and two
  Readers built by \<open>NewReader\<close> with different \<open>bufSize\<close> read alike.
\<close>
theorem Read_requests_once:
  assumes rr: "r_r rd = logged src"
    and rgcm: "r_gcm rd = Some g"
    and p: "NonceSize g \<le> length p"
    and ov: "Overhead g = 16"
    and n1: "NewReader lib maxAlloc src' key bufSize1 = Return (Some rd1, None)"
    and n2: "NewReader lib maxAlloc src' key bufSize2 = Return (Some rd2, None)"
  shows "snd (snd (snd (Read rd (s, []) p))) = [length p + 16]
       \<and> Read (rd\<lparr>r_buf := b\<rparr>) (s, []) p = Read rd (s, []) p
       \<and> Read rd1 s1 p1 = Read rd2 s1 p1"
proof (intro conjI)
  obtain data err s' where src: "src s (length p + 16) = ((data, err), s')"
    by (metis prod.collapse)
  then have "r_r rd (s, []) (length p + Overhead g) = ((data, err), (s', [length p + 16]))"
    by (simp add: rr logged_def ov)
  then show "snd (snd (snd (Read rd (s, []) p))) = [length p + 16]"
    using p by (simp add: Read_def rgcm copy_def Let_def split: prod.splits)
next
  show "Read (rd\<lparr>r_buf := b\<rparr>) (s, []) p = Read rd (s, []) p"
    by (simp add: Read_def split: option.splits)
next
  from n1 n2 have "r_r rd1 = r_r rd2" "r_gcm rd1 = r_gcm rd2"
    by (auto simp add: NewReader_def Let_def split: outcome.splits option.splits if_splits)
  then show "Read rd1 s1 p1 = Read rd2 s1 p1"
    by (simp add: Read_def split: option.splits)
qed

lemma NewReader_toy:
  "NewReader toy_lib (2 ^ 48) script_src (Some key0) 16 = Return (Some reader16, None)"
  by (simp add: NewReader_def newGCM_toy reader16_def)

lemma NewReader_toy_default:
  "NewReader toy_lib (2 ^ 48) script_src (Some key0) 0
     = Return (Some (reader16\<lparr>r_buf := replicate 1024 0\<rparr>), None)"
  by (simp add: NewReader_def newGCM_toy reader16_def)

theorem Read_requests_once_witness:
  "snd (snd (snd (Read logged_reader16 ([(frame16, None)], []) (replicate 28 0))))
     = [length (replicate 28 (0::byte)) + 16]
   \<and> Read (logged_reader16\<lparr>r_buf := []\<rparr>) ([(frame16, None)], []) (replicate 28 0)
       = Read logged_reader16 ([(frame16, None)], []) (replicate 28 0)
   \<and> Read reader16 [(frame16, None)] (replicate 28 0)
       = Read (reader16\<lparr>r_buf := replicate 1024 0\<rparr>) [(frame16, None)] (replicate 28 0)"
proof (rule Read_requests_once [where src = script_src and g = "toy_aead key0"
      and lib = toy_lib and maxAlloc = "2 ^ 48" and src' = script_src and key = "Some key0"
      and ?bufSize1.0 = 16 and ?bufSize2.0 = 0])
  show "r_r logged_reader16 = logged script_src" by (simp add: logged_reader16_def)
  show "r_gcm logged_reader16 = Some (toy_aead key0)" by (simp add: logged_reader16_def)
  show "NonceSize (toy_aead key0) \<le> length (replicate 28 (0::byte))" by (simp add: toy_aead_def)
  show "Overhead (toy_aead key0) = 16" by (simp add: toy_aead_def)
  show "NewReader toy_lib (2 ^ 48) script_src (Some key0) 16 = Return (Some reader16, None)"
    by (rule NewReader_toy)
  show "NewReader toy_lib (2 ^ 48) script_src (Some key0) 0
          = Return (Some (reader16\<lparr>r_buf := replicate 1024 0\<rparr>), None)"
    by (rule NewReader_toy_default)
qed

text \<open>
  The constructors on the small platform with a limit of \<open>2 ^ 48\<close> bytes: chunk size 16
  gives the writer used below, and a length above the limit or below zero panics in
  \<open>make\<close>.
\<close>
lemma NewWriter_toy:
  "NewWriter toy_lib (2 ^ 48) rec_sink (Some key0) 16 = Return (Some writer16, None)"
  by (simp add: NewWriter_def newGCM_toy writer16_def)

lemma NewReader_make_panics:
  "NewReader toy_lib (2 ^ 48) script_src (Some key0) (2 ^ 62) = Panic MakeLenOutOfRange"
  "NewReader toy_lib (2 ^ 48) script_src (Some key0) (- 1) = Panic MakeLenOutOfRange"
  by (simp_all add: NewReader_def newGCM_toy)

lemma NewWriter_make_panics:
  "NewWriter toy_lib (2 ^ 48) rec_sink (Some key0) (2 ^ 62) = Panic MakeLenOutOfRange"
  "NewWriter toy_lib (2 ^ 48) rec_sink (Some key0) (- 1) = Panic MakeLenOutOfRange"
  by (simp_all add: NewWriter_def newGCM_toy)

section \<open>Writer.Write: what the loop does\<close>

lemma Write_body_short:
  assumes "length p < length (st_buf st)"
  shows "Write_body w rnd p st =
           Inl (st\<lparr>st_buf := p @ drop (length p) (st_buf st),
                   st_total := st_total st + of_nat (length p)\<rparr>)"
  using assms by (simp add: Write_body_def copy_def min_def Let_def)

lemma Write_body_full:
  assumes "length (st_buf st) \<le> length p"
    and "w_gcm w = Some g"
    and "rnd (st_rng st) (NonceSize g) = ((nonce, None), r')"
    and "length nonce = NonceSize g"
    and "w_w w (st_sink st) (take (length (st_buf st)) p) = ((nw, None), k')"
  shows "Write_body w rnd p st =
           Inl \<lparr>st_total = st_total st + of_nat (length (st_buf st)) + nw,
                st_buf = take (length (st_buf st)) p, st_sink = k', st_rng = r'\<rparr>"
  using assms by (simp add: Write_body_def copy_def min_def newNonce_def Let_def)

lemma Write_body_continues:
  assumes gcm: "w_gcm w = Some g"
    and rnd: "\<And>r. \<exists>nonce r'. rnd r (NonceSize g) = ((nonce, None), r') \<and> length nonce = NonceSize g"
    and snk: "\<And>k b. snd (fst (w_w w k b)) = None"
  shows "\<exists>st'. Write_body w rnd p st = Inl st'"
proof (cases "length p < length (st_buf st)")
  case True
  then show ?thesis by (simp add: Write_body_short)
next
  case False
  then have le: "length (st_buf st) \<le> length p" by simp
  from rnd obtain nonce r' where r: "rnd (st_rng st) (NonceSize g) = ((nonce, None), r')"
    and l: "length nonce = NonceSize g" by blast
  obtain nw e k' where s: "w_w w (st_sink st) (take (length (st_buf st)) p) = ((nw, e), k')"
    by (metis prod.collapse)
  with snk [of "st_sink st" "take (length (st_buf st)) p"] have "e = None" by simp
  with s Write_body_full [where rnd = rnd, OF le gcm r l] show ?thesis by blast
qed

lemma Write_run_continues:
  assumes ne: "p \<noteq> []"
    and gcm: "w_gcm w = Some g"
    and rnd: "\<And>r. \<exists>nonce r'. rnd r (NonceSize g) = ((nonce, None), r') \<and> length nonce = NonceSize g"
    and snk: "\<And>k b. snd (fst (w_w w k b)) = None"
  shows "\<exists>st'. Write_run n w rnd p st = Inl st'"
proof (induction n arbitrary: st)
  case 0
  from ne show ?case by simp
next
  case (Suc n)
  from Write_body_continues [where rnd = rnd, OF gcm rnd snk]
  obtain st1 where "Write_body w rnd p st = Inl st1"
    by blast
  with ne Suc.IH [of st1] show ?case by simp
qed

lemma Write_never_returns:
  assumes ne: "p \<noteq> []"
    and gcm: "w_gcm w = Some g"
    and rnd: "\<And>r. \<exists>nonce r'. rnd r (NonceSize g) = ((nonce, None), r') \<and> length nonce = NonceSize g"
    and snk: "\<And>k b. snd (fst (w_w w k b)) = None"
  shows "Write fuel w rnd p k r = None"
proof -
  from Write_run_continues [where rnd = rnd, OF ne gcm rnd snk] obtain st'
    where "Write_run fuel w rnd p \<lparr>st_total = 0, st_buf = w_buf w, st_sink = k, st_rng = r\<rparr> = Inl st'"
    by blast
  then show ?thesis by (simp add: Write_def)
qed

lemma writer16_never_returns:
  assumes "p \<noteq> []"
  shows "Write fuel writer16 counter_rand p k r = None"
proof (rule Write_never_returns [where rnd = counter_rand and g = "toy_aead key0", OF assms])
  show "w_gcm writer16 = Some (toy_aead key0)" by (simp add: writer16_def)
  show "\<exists>nonce r'. counter_rand r (NonceSize (toy_aead key0)) = ((nonce, None), r')
          \<and> length nonce = NonceSize (toy_aead key0)" for r
    by (simp add: counter_rand_def)
  show "snd (fst (w_w writer16 k b)) = None" for k b
    by (simp add: writer16_def rec_sink_def)
qed

lemma Write_run_short:
  assumes "p \<noteq> []" and "length p < length (st_buf st)"
  shows "\<exists>st'. Write_run n w rnd p st = Inl st'
           \<and> st_sink st' = st_sink st \<and> st_rng st' = st_rng st
           \<and> length (st_buf st') = length (st_buf st)
           \<and> (0 < n \<or> take (length p) (st_buf st) = p \<longrightarrow> take (length p) (st_buf st') = p)"
  using assms
proof (induction n arbitrary: st)
  case 0
  then show ?case by auto
next
  case (Suc n)
  let ?st1 = "st\<lparr>st_buf := p @ drop (length p) (st_buf st),
                   st_total := st_total st + of_nat (length p)\<rparr>"
  from Suc.prems have b: "Write_body w rnd p st = Inl ?st1" by (simp add: Write_body_short)
  from Suc.prems have "length p < length (st_buf ?st1)" by simp
  from Suc.IH [OF Suc.prems(1) this] obtain st' where "Write_run n w rnd p ?st1 = Inl st'"
    "st_sink st' = st_sink st" "st_rng st' = st_rng st" "length (st_buf st') = length (st_buf st)"
    "take (length p) (st_buf st') = p"
    using Suc.prems by auto
  with b Suc.prems(1) show ?case by auto
qed

text \<open>
  C3. The claim: \<open>Write\<close> terminates and returns the length of its input. The loop
  never shortens \<open>p\<close>: with chunk size 16 a call with one byte does not return for any
  fuel, and a call with 16 bytes on a writer that fails at its second write returns 48.
\<close>
theorem Write_does_not_accept_input:
  "(\<forall>fuel. Write fuel writer16 counter_rand [65] [] 0 = None)
   \<and> Write 2 failing_writer16 counter_rand chunk16 1 0
       = Some (Return (48, Some (ErrIO 0)),
               \<lparr>st_total = 48, st_buf = chunk16, st_sink = 0, st_rng = 2\<rparr>)"
proof
  show "\<forall>fuel. Write fuel writer16 counter_rand [65] [] 0 = None"
    by (simp add: writer16_never_returns)
  show "Write 2 failing_writer16 counter_rand chunk16 1 0
       = Some (Return (48, Some (ErrIO 0)),
               \<lparr>st_total = 48, st_buf = chunk16, st_sink = 0, st_rng = 2\<rparr>)"
    by code_simp
qed

text \<open>
  C5. The claim: a flush writes the sealed frame, \<open>nonceSize + n + tagSize\<close> bytes. With
  chunk size 16 and a 16-byte input, the pass of the loop that flushes draws one nonce and
  hands the underlying writer the 16 plaintext bytes of the buffer; the sealed frame of
  that chunk has 44 bytes and is another byte sequence.
\<close>
theorem flush_writes_plaintext_buffer:
  "Write_body writer16 counter_rand chunk16 start16
     = Inl \<lparr>st_total = 32, st_buf = chunk16, st_sink = [chunk16], st_rng = 1\<rparr>
   \<and> length frame16 = 44 \<and> frame16 \<noteq> chunk16"
  by code_simp

text \<open>
  C4, as the claim states it, fails: the Writer has no operation besides \<open>Write\<close>, and
  with chunk size 16 a one-byte input sits in the buffer after three passes of the loop
  while nothing has reached the underlying writer.
\<close>
theorem trailing_bytes_not_flushed_counterexample:
  "Write_run 3 writer16 counter_rand [65] start16
     = Inl \<lparr>st_total = 3, st_buf = 65 # replicate 15 0, st_sink = [], st_rng = 0\<rparr>"
  by code_simp

text \<open>
  C4, amended. There is no finish operation. For a non-empty input shorter than the
  buffer, however many passes the loop of \<open>Write\<close> makes, the underlying writer and the
  random source are left as they were: the bytes are copied into the buffer (they are
  there after the first pass) and are never sealed or written.
\<close>
theorem partial_chunk_never_written:
  assumes "p \<noteq> []" and "length p < length (st_buf st)"
  shows "st_sink (run_state (Write_run n w rnd p st)) = st_sink st
       \<and> st_rng (run_state (Write_run n w rnd p st)) = st_rng st
       \<and> (0 < n \<longrightarrow> take (length p) (st_buf (run_state (Write_run n w rnd p st))) = p)"
proof -
  from Write_run_short [OF assms, of n w rnd] obtain st' where
    "Write_run n w rnd p st = Inl st'" "st_sink st' = st_sink st" "st_rng st' = st_rng st"
    "0 < n \<or> take (length p) (st_buf st) = p \<longrightarrow> take (length p) (st_buf st') = p"
    by blast
  then show ?thesis by (simp add: run_state_def)
qed

theorem partial_chunk_never_written_witness:
  "st_sink (run_state (Write_run 3 writer16 counter_rand [65] start16)) = st_sink start16
   \<and> st_rng (run_state (Write_run 3 writer16 counter_rand [65] start16)) = st_rng start16
   \<and> take (length [65::byte]) (st_buf (run_state (Write_run 3 writer16 counter_rand [65] start16)))
       = [65]"
proof -
  have a: "[65::byte] \<noteq> []" by simp
  have b: "length [65::byte] < length (st_buf start16)" by (simp add: start16_def)
  have c: "0 < (3::nat)" by simp
  from partial_chunk_never_written [OF a b, of 3 writer16 counter_rand] c
  show ?thesis by blast
qed

section \<open>The stream codec end to end\<close>

text \<open>
  C2. The claim: bytes written through the Writer and decoded by a Reader with the same
  chunk size come back exactly. With chunk size 16 and 17 bytes of input, \<open>Write\<close> does
  not return for any fuel; after two passes of the loop the underlying writer holds the
  first 16 plaintext bytes twice and the 17th byte never; and \<open>Read\<close> on what was
  written fails.
\<close>
theorem stream_roundtrip_fails:
  "(\<forall>fuel. Write fuel writer16 counter_rand (chunk16 @ [81]) [] 0 = None)
   \<and> Write_run 2 writer16 counter_rand (chunk16 @ [81]) start16
       = Inl \<lparr>st_total = 64, st_buf = chunk16, st_sink = [chunk16, chunk16], st_rng = 2\<rparr>
   \<and> Read reader16 [(chunk16, None)] (replicate 28 0)
       = (Return (0, Some ErrOpen), replicate 28 0, [])"
proof (intro conjI)
  show "\<forall>fuel. Write fuel writer16 counter_rand (chunk16 @ [81]) [] 0 = None"
    by (simp add: writer16_never_returns)
  show "Write_run 2 writer16 counter_rand (chunk16 @ [81]) start16
       = Inl \<lparr>st_total = 64, st_buf = chunk16, st_sink = [chunk16, chunk16], st_rng = 2\<rparr>"
    by code_simp
  show "Read reader16 [(chunk16, None)] (replicate 28 0)
       = (Return (0, Some ErrOpen), replicate 28 0, [])"
    by code_simp
qed

text \<open>
  C6. The claim: \<open>Read\<close> keeps reading until a whole frame is gathered. \<open>Read\<close> calls
  the underlying reader once: when a valid 44-byte frame arrives as 5 bytes and then the
  rest, \<open>Read\<close> panics on the 5 bytes and leaves the rest unread; when it arrives as 20
  bytes and then the rest, \<open>Read\<close> fails on the 20 bytes; handed over whole, the same
  frame decodes.
\<close>
theorem Read_does_not_gather_frame:
  "Read reader16 [(take 5 frame16, None), (drop 5 frame16, None)] (replicate 28 0)
     = (Panic SliceBounds, replicate 28 0, [(drop 5 frame16, None)])
   \<and> Read reader16 [(take 20 frame16, None), (drop 20 frame16, None)] (replicate 28 0)
     = (Return (0, Some ErrOpen), replicate 28 0, [(drop 20 frame16, None)])
   \<and> Read reader16 [(frame16, None)] (replicate 28 0)
     = (Return (16, None), chunk16 @ replicate 12 0, [])"
  by code_simp

text \<open>
  What \<open>Read\<close> does with an answer shorter than the nonce, whatever the AEAD: the slice
  \<open>ciphertext[NonceSize:]\<close> is out of range and the call panics before \<open>Open\<close> is reached.
\<close>
lemma Read_short_answer_panics:
  assumes "r_gcm rd = Some g"
    and "NonceSize g \<le> length p"
    and "r_r rd s (length p + Overhead g) = ((data, None), s')"
    and "length data < NonceSize g"
  shows "Read rd s p = (Panic SliceBounds, p, s')"
  using assms by (simp add: Read_def)

text \<open>
  C8. The claim: inverting any single bit of a ciphertext or of a stream frame makes the
  decode fail with the authentication error. Take the valid 44-byte frame of a 16-byte
  chunk and invert bit 100, in the first ciphertext byte. Handed to \<open>Read\<close> whole, the
  frame is rejected with the authentication error. Arriving as 5 bytes and then the rest,
  as an \<open>io.Reader\<close> may deliver it, the same frame makes \<open>Read\<close> panic on the 5 bytes
  with a slice out of range, and the rest stays unread: no authentication error is
  returned.
\<close>
theorem tampered_frame_in_pieces_panics:
  "Read reader16
     [(take 5 (flip_bit_at 100 frame16), None), (drop 5 (flip_bit_at 100 frame16), None)]
     (replicate 28 0)
     = (Panic SliceBounds, replicate 28 0, [(drop 5 (flip_bit_at 100 frame16), None)])
   \<and> Read reader16 [(flip_bit_at 100 frame16, None)] (replicate 28 0)
     = (Return (0, Some ErrOpen), replicate 28 0, [])
   \<and> flip_bit_at 100 frame16 \<noteq> frame16
   \<and> length (flip_bit_at 100 frame16) = 44"
  by code_simp

text \<open>
  C9. The claim: \<open>Decrypt\<close> returns the factory's error before using its result and
  never panics. When \<open>cipher.NewGCM\<close> fails, \<open>newGCM\<close> returns a nil AEAD with the error,
  \<open>Encrypt\<close> returns that error, and \<open>Decrypt\<close> panics on the nil AEAD; \<open>Decrypt\<close> with
  a nil key pointer panics as well.
\<close>
theorem Decrypt_ignores_newGCM_error:
  "Decrypt rejecting_lib [] (Some key0) = Panic NilDereference
   \<and> newGCM rejecting_lib (Some key0) = Return (None, Some ErrNewGCM)
   \<and> Encrypt rejecting_lib counter_rand 0 [] (Some key0) = (Return ([], Some ErrNewGCM), 0)
   \<and> Decrypt toy_lib [] None = Panic NilDereference"
  by (simp add: Decrypt_def Encrypt_def newGCM_def rejecting_lib_def)

end
